theory Spec2Isabelle
  imports Complex_Main "HOL-Library.Log_Nat"
begin

section \<open>Grid position risk calculator: the numeric engine of App.tsx\<close>

text \<open>
  The calculator is a React component; its engine is the two memoised closures
  \<^verbatim>\<open>table\<close> and \<^verbatim>\<open>analysis\<close>, pure functions of nine numeric inputs.
  The embedding follows them line by line.

  Numbers. A JavaScript number is a binary64 floating-point number. A finite one is
  modelled by the real it denotes, and every arithmetic operation of the source by the
  exact operation followed by \<open>round64\<close>, the rounding to the nearest binary64 number
  (ties to the even significand, gradual underflow). Comparisons are exact. Three things
  are outside the model. The inputs are finite numbers, \<^verbatim>\<open>levels\<close> an integer (it is
  read with \<^verbatim>\<open>parseInt\<close>); a statement that needs an input to be a binary64 number
  says so (\<open>round64 x = x\<close>). There is no overflow: a result beyond the binary64 range
  stays finite where the source has an infinity. And the source's quotients have the
  divisors \<^verbatim>\<open>leverage\<close>, \<^verbatim>\<open>balanceUSC || 1\<close> and the cumulative lots of the last
  triggered level; where such a divisor is zero the source yields \<^verbatim>\<open>NaN\<close> or an
  infinity, so the statements below about the value of such a quotient assume its divisor
  non-zero, and every example has non-zero divisors.
\<close>

subsection \<open>Binary64 arithmetic\<close>

text \<open>Rounding a real to an integer, a tie going to the even neighbour.\<close>

definition rne :: "real \<Rightarrow> int" where
  "rne t =
     (let f = \<lfloor>t\<rfloor>; r = t - of_int f
      in if r < 1 / 2 then f else if 1 / 2 < r then f + 1
         else if even f then f else f + 1)"

text \<open>The binary exponent of a non-zero real: \<open>2\<^sup>e \<le> \<bar>x\<bar> < 2\<^sup>e\<^sup>+\<^sup>1\<close>.\<close>

definition expo :: "real \<Rightarrow> int" where
  "expo x =
     (if 1 \<le> \<bar>x\<bar> then bitlen \<lfloor>\<bar>x\<bar>\<rfloor> - 1 else - bitlen (\<lceil>1 / \<bar>x\<bar>\<rceil> - 1))"

text \<open>
  The unit in the last place of a 53-bit significand; below \<open>2\<^sup>-\<^sup>1\<^sup>0\<^sup>2\<^sup>2\<close> the numbers are
  subnormal and the unit stays \<open>2\<^sup>-\<^sup>1\<^sup>0\<^sup>7\<^sup>4\<close>.
\<close>

definition ulp64 :: "real \<Rightarrow> real" where
  "ulp64 x = 2 powi (max (expo x) (- 1022) - 52)"

definition round64 :: "real \<Rightarrow> real" where
  "round64 x = (if x = 0 then 0 else of_int (rne (x / ulp64 x)) * ulp64 x)"

definition add64 :: "real \<Rightarrow> real \<Rightarrow> real" where
  "add64 a b = round64 (a + b)"

definition sub64 :: "real \<Rightarrow> real \<Rightarrow> real" where
  "sub64 a b = round64 (a - b)"

definition mul64 :: "real \<Rightarrow> real \<Rightarrow> real" where
  "mul64 a b = round64 (a * b)"

definition div64 :: "real \<Rightarrow> real \<Rightarrow> real" where
  "div64 a b = round64 (a / b)"



subsection \<open>Number.prototype.toFixed, read back with unary plus\<close>

text \<open>
  \<^verbatim>\<open>x.toFixed(d)\<close> prints a decimal of the exact value of \<open>x\<close>: for
  \<open>\<bar>x\<bar> \<ge> 10\<^sup>2\<^sup>1\<close> the number itself; otherwise the sign is split off and the magnitude
  becomes \<open>n / 10\<^sup>d\<close> for the integer \<open>n\<close> nearest to \<open>\<bar>x\<bar> * 10\<^sup>d\<close>, the larger one on a
  tie. The unary plus reads the decimal back as the nearest binary64 number.
\<close>

definition decimal :: "nat \<Rightarrow> real \<Rightarrow> real" where
  "decimal d x =
     (if 10 ^ 21 \<le> \<bar>x\<bar> then x
      else sgn x * (of_int \<lfloor>\<bar>x\<bar> * 10 ^ d + 1 / 2\<rfloor> / 10 ^ d))"

definition toFixed :: "nat \<Rightarrow> real \<Rightarrow> real" where
  "toFixed d x = round64 (decimal d x)"

text \<open>\<^verbatim>\<open>a || b\<close> on numbers: \<open>b\<close> when \<open>a\<close> is zero.\<close>

definition or_else :: "real \<Rightarrow> real \<Rightarrow> real" where
  "or_else a b = (if a = 0 then b else a)"

subsection \<open>Inputs and ladder rows\<close>

record params =
  gridStartPrice :: real
  currentPrice :: real
  step :: real
  lotSize :: real
  levels :: int
  tp :: real
  balanceUSC :: real
  leverage :: real
  contractSize :: real

record level =
  idx :: nat
  levelPrice :: real
  lotsAtThisLevel :: real
  cumulativeLots :: real
  totalOunces :: real
  notionalUSD :: real
  notionalUSC :: real
  margin :: real
  potentialProfitIfAllClosed :: real
  isTriggered :: bool

definition precision :: nat where
  "precision = 2"

text \<open>The body of the \<^verbatim>\<open>for\<close> loop of \<^verbatim>\<open>table\<close> at loop index \<open>i\<close>.\<close>

definition mkLevel :: "params \<Rightarrow> nat \<Rightarrow> level" where
  "mkLevel p i =
     (let levelPrice' =
            toFixed precision (sub64 (gridStartPrice p) (mul64 (of_nat i) (step p)));
          lotsAtThisLevel' = toFixed 4 (lotSize p);
          cumulativeLots' = toFixed 4 (mul64 lotsAtThisLevel' (add64 (of_nat i) 1));
          totalOunces' = toFixed 2 (mul64 cumulativeLots' (contractSize p));
          notionalUSD' = toFixed 2 (mul64 levelPrice' totalOunces');
          notionalUSC' = toFixed 2 (mul64 notionalUSD' 100);
          margin' = toFixed 2 (mul64 (div64 notionalUSD' (leverage p)) 100);
          profitPerLotUSC = toFixed 2 (mul64 (mul64 (tp p) (contractSize p)) 100);
          potentialProfitIfAllClosed' =
            toFixed 2 (mul64 (mul64 lotsAtThisLevel' (add64 (of_nat i) 1)) profitPerLotUSC);
          isTriggered' = (currentPrice p \<le> levelPrice')
      in \<lparr> idx = i + 1, levelPrice = levelPrice', lotsAtThisLevel = lotsAtThisLevel',
           cumulativeLots = cumulativeLots', totalOunces = totalOunces',
           notionalUSD = notionalUSD', notionalUSC = notionalUSC', margin = margin',
           potentialProfitIfAllClosed = potentialProfitIfAllClosed',
           isTriggered = isTriggered' \<rparr>)"

text \<open>\<^verbatim>\<open>for (let i = 0; i < levels; i++) arr.push(...)\<close>: no row when \<open>levels \<le> 0\<close>.\<close>

definition table :: "params \<Rightarrow> level list" where
  "table p = map (mkLevel p) [0 ..< nat (levels p)]"

subsection \<open>analysis: the position at the current price\<close>

text \<open>\<^verbatim>\<open>rows.reduce((s, r) => s + r.levelPrice * r.lotsAtThisLevel, 0)\<close>\<close>

definition entrySum :: "level list \<Rightarrow> real" where
  "entrySum rows = foldl (\<lambda>s r. add64 s (mul64 (levelPrice r) (lotsAtThisLevel r))) 0 rows"

definition triggeredLevels :: "params \<Rightarrow> level list" where
  "triggeredLevels p = filter isTriggered (table p)"

definition numTriggered :: "params \<Rightarrow> nat" where
  "numTriggered p = length (triggeredLevels p)"

text \<open>
  \<^verbatim>\<open>triggeredLevels[triggeredLevels.length - 1]\<close>; \<^verbatim>\<open>analysis\<close> has returned
  before this line when no level is triggered.
\<close>

definition lastTriggered :: "params \<Rightarrow> level" where
  "lastTriggered p = last (triggeredLevels p)"

definition totalLots :: "params \<Rightarrow> real" where
  "totalLots p = cumulativeLots (lastTriggered p)"

definition an_totalOunces :: "params \<Rightarrow> real" where
  "an_totalOunces p = totalOunces (lastTriggered p)"

definition currentNotionalUSD :: "params \<Rightarrow> real" where
  "currentNotionalUSD p = toFixed 2 (mul64 (currentPrice p) (an_totalOunces p))"

definition an_notionalUSC :: "params \<Rightarrow> real" where
  "an_notionalUSC p = toFixed 2 (mul64 (currentNotionalUSD p) 100)"

definition usedMargin :: "params \<Rightarrow> real" where
  "usedMargin p = toFixed 2 (mul64 (div64 (currentNotionalUSD p) (leverage p)) 100)"

definition marginPercent :: "params \<Rightarrow> real" where
  "marginPercent p =
     toFixed 2 (mul64 (div64 (usedMargin p) (or_else (balanceUSC p) 1)) 100)"

definition profitPerLotUSC :: "params \<Rightarrow> real" where
  "profitPerLotUSC p = toFixed 2 (mul64 (mul64 (tp p) (contractSize p)) 100)"

definition totalPotentialProfit :: "params \<Rightarrow> real" where
  "totalPotentialProfit p = toFixed 2 (mul64 (totalLots p) (profitPerLotUSC p))"

definition avgEntry :: "params \<Rightarrow> real" where
  "avgEntry p = div64 (entrySum (triggeredLevels p)) (totalLots p)"

definition avgEntryFixed :: "params \<Rightarrow> real" where
  "avgEntryFixed p = toFixed 2 (avgEntry p)"

definition currentFloatingPL :: "params \<Rightarrow> real" where
  "currentFloatingPL p =
     toFixed 2 (mul64 (mul64 (sub64 (currentPrice p) (avgEntry p)) (an_totalOunces p)) 100)"

definition breakEvenPrice :: "params \<Rightarrow> real" where
  "breakEvenPrice p = avgEntryFixed p"

definition profitTargetPrice :: "params \<Rightarrow> real" where
  "profitTargetPrice p = toFixed 2 (add64 (avgEntryFixed p) (tp p))"

definition simulateDrop :: "params \<Rightarrow> real \<Rightarrow> real" where
  "simulateDrop p dropAmount =
     (let newPrice = sub64 (currentPrice p) dropAmount;
          newTriggered = filter (\<lambda>r. newPrice \<le> levelPrice r) (table p)
      in if length newTriggered = 0 then 0
         else
           (let lastNew = last newTriggered;
                newTotalOunces = totalOunces lastNew;
                newTotalLots = cumulativeLots lastNew;
                newAvgEntry = div64 (entrySum newTriggered) newTotalLots
            in toFixed 2 (mul64 (mul64 (sub64 newPrice newAvgEntry) newTotalOunces) 100)))"

subsection \<open>findMarginCallPrice: the bisection\<close>

definition stopOutLevel :: real where
  "stopOutLevel = 0.50"

text \<open>The constants of the loop body, as functions of the probed price \<open>mid\<close>.\<close>

definition triggeredAtMid :: "params \<Rightarrow> real \<Rightarrow> level list" where
  "triggeredAtMid p mid = filter (\<lambda>r. mid \<le> levelPrice r) (table p)"

definition avgEntryAtMid :: "params \<Rightarrow> real \<Rightarrow> real" where
  "avgEntryAtMid p mid =
     (let lastAtMid = last (triggeredAtMid p mid);
          totalLotsAtMid = cumulativeLots lastAtMid
      in div64 (entrySum (triggeredAtMid p mid)) totalLotsAtMid)"

definition totalOuncesAtMid :: "params \<Rightarrow> real \<Rightarrow> real" where
  "totalOuncesAtMid p mid = totalOunces (last (triggeredAtMid p mid))"

definition equityAtMid :: "params \<Rightarrow> real \<Rightarrow> real" where
  "equityAtMid p mid =
     (let floatingPLAtMid =
            mul64 (mul64 (sub64 mid (avgEntryAtMid p mid)) (totalOuncesAtMid p mid)) 100
      in add64 (balanceUSC p) floatingPLAtMid)"

definition usedMarginAtMid :: "params \<Rightarrow> real \<Rightarrow> real" where
  "usedMarginAtMid p mid =
     (let notionalUSDAtMid = mul64 mid (totalOuncesAtMid p mid)
      in mul64 (div64 notionalUSDAtMid (leverage p)) 100)"


text \<open>
  One pass of the loop body on the variables \<open>(low, high, marginCallPrice)\<close>; the
  \<^verbatim>\<open>continue\<close> of the empty case is the first branch.
\<close>

definition mcStep :: "params \<Rightarrow> real \<times> real \<times> real \<Rightarrow> real \<times> real \<times> real" where
  "mcStep p s =
     (case s of (low, high, marginCallPrice) \<Rightarrow>
        (let mid = div64 (add64 low high) 2
         in if length (triggeredAtMid p mid) = 0 then (low, mid, marginCallPrice)
            else if equityAtMid p mid \<le> mul64 (usedMarginAtMid p mid) stopOutLevel
                 then (mid, high, mid)
                 else (low, mid, marginCallPrice)))"

text \<open>\<^verbatim>\<open>for (let i = 0; i < 20; i++)\<close>: the body does not read \<open>i\<close>.\<close>

primrec mcLoop :: "params \<Rightarrow> nat \<Rightarrow> real \<times> real \<times> real \<Rightarrow> real \<times> real \<times> real" where
  "mcLoop p 0 s = s"
| "mcLoop p (Suc n) s = mcLoop p n (mcStep p s)"

definition mcSearch :: "params \<Rightarrow> real \<times> real \<times> real" where
  "mcSearch p = mcLoop p 20 (0, currentPrice p, 0)"

definition findMarginCallPrice :: "params \<Rightarrow> real" where
  "findMarginCallPrice p = (case mcSearch p of (low, high, marginCallPrice) \<Rightarrow>
     toFixed 2 marginCallPrice)"

definition marginCallPrice :: "params \<Rightarrow> real" where
  "marginCallPrice p = findMarginCallPrice p"

definition maxSafeDrop :: "params \<Rightarrow> real" where
  "maxSafeDrop p = toFixed 2 (sub64 (currentPrice p) (marginCallPrice p))"

definition currentEquity :: "params \<Rightarrow> real" where
  "currentEquity p = toFixed 2 (add64 (balanceUSC p) (currentFloatingPL p))"

subsection \<open>Risk tier\<close>

datatype risk_level = LOW | MODERATE | HIGH | EXTREME

datatype risk_color = green | yellow | orange | red

definition riskOf :: "real \<Rightarrow> risk_level \<times> risk_color" where
  "riskOf mp =
     (if mp > 70 then (EXTREME, red)
      else if mp > 50 then (HIGH, orange)
      else if mp > 30 then (MODERATE, yellow)
      else (LOW, green))"

definition riskLevel :: "params \<Rightarrow> risk_level" where
  "riskLevel p = fst (riskOf (marginPercent p))"

definition riskColor :: "params \<Rightarrow> risk_color" where
  "riskColor p = snd (riskOf (marginPercent p))"

subsection \<open>Equity curve\<close>

record point =
  price :: real
  equity :: real

definition steps :: nat where
  "steps = 50"

definition startP :: "params \<Rightarrow> real" where
  "startP p = currentPrice p"

definition endP :: "params \<Rightarrow> real" where
  "endP p = max 0 (sub64 (marginCallPrice p) 50)"

definition stepSize :: "params \<Rightarrow> real" where
  "stepSize p = div64 (sub64 (startP p) (endP p)) (of_nat steps)"

definition equityAtP :: "params \<Rightarrow> real \<Rightarrow> real" where
  "equityAtP p x =
     (let triggeredAtP = filter (\<lambda>r. x \<le> levelPrice r) (table p)
      in if length triggeredAtP > 0
         then
           (let lastAtP = last triggeredAtP;
                totalLotsAtP = cumulativeLots lastAtP;
                totalOuncesAtP = totalOunces lastAtP;
                avgEntryAtP = div64 (entrySum triggeredAtP) totalLotsAtP;
                floatingPLAtP = mul64 (mul64 (sub64 x avgEntryAtP) totalOuncesAtP) 100
            in add64 (balanceUSC p) floatingPLAtP)
         else balanceUSC p)"

text \<open>\<^verbatim>\<open>for (let i = 0; i <= steps; i++) points.push({ price: p, equity: equityAtP })\<close>\<close>

definition curvePoint :: "params \<Rightarrow> nat \<Rightarrow> point" where
  "curvePoint p i =
     (let x = sub64 (startP p) (mul64 (of_nat i) (stepSize p))
      in \<lparr> price = x, equity = equityAtP p x \<rparr>)"

definition equityCurveData :: "params \<Rightarrow> point list" where
  "equityCurveData p = map (curvePoint p) [0 ..< steps + 1]"

subsection \<open>The value of analysis\<close>

record snapshot =
  sn_numTriggered :: nat
  sn_totalLots :: real
  sn_totalOunces :: real
  sn_usedMargin :: real
  sn_notionalUSC :: real
  sn_marginPercent :: real
  sn_totalPotentialProfit :: real
  sn_avgEntryFixed :: real
  sn_currentFloatingPL :: real
  sn_breakEvenPrice :: real
  sn_profitTargetPrice :: real
  sn_drop10 :: real
  sn_drop25 :: real
  sn_drop50 :: real
  sn_drop100 :: real
  sn_marginCallPrice :: real
  sn_maxSafeDrop :: real
  sn_riskLevel :: risk_level
  sn_riskColor :: risk_color
  sn_lowestTriggered :: real
  sn_currentEquity :: real
  sn_noPositions :: bool
  sn_equityCurveData :: "point list"

text \<open>
  \<^verbatim>\<open>analysis\<close> has three shapes: \<^verbatim>\<open>null\<close> for an empty table, the object
  \<^verbatim>\<open>{ numTriggered: 0, noPositions: true }\<close> when no row is triggered, and the full
  object otherwise.
\<close>

datatype 'a analysis_result = Null | NoPosition nat bool | Position 'a

definition snapshotOf :: "params \<Rightarrow> snapshot" where
  "snapshotOf p =
     \<lparr> sn_numTriggered = numTriggered p,
       sn_totalLots = totalLots p,
       sn_totalOunces = an_totalOunces p,
       sn_usedMargin = usedMargin p,
       sn_notionalUSC = an_notionalUSC p,
       sn_marginPercent = marginPercent p,
       sn_totalPotentialProfit = totalPotentialProfit p,
       sn_avgEntryFixed = avgEntryFixed p,
       sn_currentFloatingPL = currentFloatingPL p,
       sn_breakEvenPrice = breakEvenPrice p,
       sn_profitTargetPrice = profitTargetPrice p,
       sn_drop10 = simulateDrop p 10,
       sn_drop25 = simulateDrop p 25,
       sn_drop50 = simulateDrop p 50,
       sn_drop100 = simulateDrop p 100,
       sn_marginCallPrice = marginCallPrice p,
       sn_maxSafeDrop = maxSafeDrop p,
       sn_riskLevel = riskLevel p,
       sn_riskColor = riskColor p,
       sn_lowestTriggered = levelPrice (lastTriggered p),
       sn_currentEquity = currentEquity p,
       sn_noPositions = False,
       sn_equityCurveData = equityCurveData p \<rparr>"

definition analysis :: "params \<Rightarrow> snapshot analysis_result" where
  "analysis p =
     (if length (table p) = 0 then Null
      else if numTriggered p = 0 then NoPosition 0 True
      else Position (snapshotOf p))"

section \<open>The second entry point\<close>

text \<open>
  The repository holds a second copy of the component (cookie persistence and a dark
  mode added) with its own \<^verbatim>\<open>table\<close> and \<^verbatim>\<open>analysis\<close>. It is embedded on its
  own, closure by closure with the local constants kept as \<open>let\<close> bindings, and reports
  six further fields, the drawdown thresholds.
\<close>

definition table2 :: "params \<Rightarrow> level list" where
  "table2 p =
     map (\<lambda>i.
       let levelPrice' =
             toFixed precision (sub64 (gridStartPrice p) (mul64 (of_nat i) (step p)));
           lotsAtThisLevel' = toFixed 4 (lotSize p);
           cumulativeLots' = toFixed 4 (mul64 lotsAtThisLevel' (add64 (of_nat i) 1));
           totalOunces' = toFixed 2 (mul64 cumulativeLots' (contractSize p));
           notionalUSD' = toFixed 2 (mul64 levelPrice' totalOunces');
           notionalUSC' = toFixed 2 (mul64 notionalUSD' 100);
           margin' = toFixed 2 (mul64 (div64 notionalUSD' (leverage p)) 100);
           profitPerLotUSC' = toFixed 2 (mul64 (mul64 (tp p) (contractSize p)) 100);
           potentialProfitIfAllClosed' =
             toFixed 2 (mul64 (mul64 lotsAtThisLevel' (add64 (of_nat i) 1)) profitPerLotUSC');
           isTriggered' = (currentPrice p \<le> levelPrice')
       in \<lparr> idx = i + 1, levelPrice = levelPrice', lotsAtThisLevel = lotsAtThisLevel',
            cumulativeLots = cumulativeLots', totalOunces = totalOunces',
            notionalUSD = notionalUSD', notionalUSC = notionalUSC', margin = margin',
            potentialProfitIfAllClosed = potentialProfitIfAllClosed',
            isTriggered = isTriggered' \<rparr>)
       [0 ..< nat (levels p)]"

definition simulateDrop2 :: "params \<Rightarrow> real \<Rightarrow> real" where
  "simulateDrop2 p dropAmount =
     (let newPrice = sub64 (currentPrice p) dropAmount;
          newTriggered = filter (\<lambda>r. newPrice \<le> levelPrice r) (table2 p)
      in if length newTriggered = 0 then 0
         else
           (let lastNew = last newTriggered;
                newTotalOunces = totalOunces lastNew;
                newTotalLots = cumulativeLots lastNew;
                newAvgEntry =
                  div64
                    (foldl (\<lambda>s r. add64 s (mul64 (levelPrice r) (lotsAtThisLevel r))) 0
                       newTriggered)
                    newTotalLots
            in toFixed 2 (mul64 (mul64 (sub64 newPrice newAvgEntry) newTotalOunces) 100)))"

text \<open>The loop body of \<^verbatim>\<open>findPriceForEquity(targetEquity)\<close> on \<open>(low, high, targetPrice)\<close>.\<close>

definition findPriceForEquityStep2 ::
  "params \<Rightarrow> real \<Rightarrow> real \<times> real \<times> real \<Rightarrow> real \<times> real \<times> real" where
  "findPriceForEquityStep2 p targetEquity s =
     (case s of (low, high, targetPrice) \<Rightarrow>
        (let mid = div64 (add64 low high) 2;
             triggeredAtMid' = filter (\<lambda>r. mid \<le> levelPrice r) (table2 p)
         in if length triggeredAtMid' = 0 then (low, mid, targetPrice)
            else
              (let lastAtMid = last triggeredAtMid';
                   totalLotsAtMid = cumulativeLots lastAtMid;
                   totalOuncesAtMid' = totalOunces lastAtMid;
                   avgEntryAtMid' =
                     div64
                       (foldl (\<lambda>s r. add64 s (mul64 (levelPrice r) (lotsAtThisLevel r))) 0
                          triggeredAtMid')
                       totalLotsAtMid;
                   floatingPLAtMid =
                     mul64 (mul64 (sub64 mid avgEntryAtMid') totalOuncesAtMid') 100;
                   equityAtMid' = add64 (balanceUSC p) floatingPLAtMid
               in if equityAtMid' \<le> targetEquity then (mid, high, mid)
                  else (low, mid, targetPrice))))"

definition findPriceForEquity2 :: "params \<Rightarrow> real \<Rightarrow> real" where
  "findPriceForEquity2 p targetEquity =
     (case (findPriceForEquityStep2 p targetEquity ^^ 20) (0, currentPrice p, 0) of
        (low, high, targetPrice) \<Rightarrow> toFixed 2 targetPrice)"

text \<open>The loop body of the \<^verbatim>\<open>marginCallPrice\<close> closure on \<open>(low, high, resultPrice)\<close>.\<close>

definition marginCallStep2 ::
  "params \<Rightarrow> real \<times> real \<times> real \<Rightarrow> real \<times> real \<times> real" where
  "marginCallStep2 p s =
     (case s of (low, high, resultPrice) \<Rightarrow>
        (let mid = div64 (add64 low high) 2;
             triggeredAtMid' = filter (\<lambda>r. mid \<le> levelPrice r) (table2 p)
         in if length triggeredAtMid' = 0 then (low, mid, resultPrice)
            else
              (let lastAtMid = last triggeredAtMid';
                   totalLotsAtMid = cumulativeLots lastAtMid;
                   totalOuncesAtMid' = totalOunces lastAtMid;
                   avgEntryAtMid' =
                     div64
                       (foldl (\<lambda>s r. add64 s (mul64 (levelPrice r) (lotsAtThisLevel r))) 0
                          triggeredAtMid')
                       totalLotsAtMid;
                   floatingPLAtMid =
                     mul64 (mul64 (sub64 mid avgEntryAtMid') totalOuncesAtMid') 100;
                   equityAtMid' = add64 (balanceUSC p) floatingPLAtMid;
                   notionalUSDAtMid = mul64 mid totalOuncesAtMid';
                   usedMarginAtMid' = mul64 (div64 notionalUSDAtMid (leverage p)) 100
               in if equityAtMid' \<le> mul64 usedMarginAtMid' 0.50 then (mid, high, mid)
                  else (low, mid, resultPrice))))"

definition marginCallPrice2 :: "params \<Rightarrow> real" where
  "marginCallPrice2 p =
     (case (marginCallStep2 p ^^ 20) (0, currentPrice p, 0) of
        (low, high, resultPrice) \<Rightarrow> toFixed 2 resultPrice)"

definition equityCurveData2 :: "params \<Rightarrow> real \<Rightarrow> point list" where
  "equityCurveData2 p marginCallPrice' =
     (let startP' = currentPrice p;
          endP' = max 0 (sub64 marginCallPrice' 50);
          steps' = 50;
          stepSize' = div64 (sub64 startP' endP') (of_nat steps')
      in map (\<lambda>i.
           let x = sub64 startP' (mul64 (of_nat i) stepSize');
               triggeredAtP = filter (\<lambda>r. x \<le> levelPrice r) (table2 p);
               equityAtP' =
                 (if length triggeredAtP > 0
                  then
                    (let lastAtP = last triggeredAtP;
                         totalLotsAtP = cumulativeLots lastAtP;
                         totalOuncesAtP = totalOunces lastAtP;
                         avgEntryAtP =
                           div64
                             (foldl (\<lambda>s r. add64 s (mul64 (levelPrice r) (lotsAtThisLevel r)))
                                0 triggeredAtP)
                             totalLotsAtP;
                         floatingPLAtP = mul64 (mul64 (sub64 x avgEntryAtP) totalOuncesAtP) 100
                     in add64 (balanceUSC p) floatingPLAtP)
                  else balanceUSC p)
           in \<lparr> price = x, equity = equityAtP' \<rparr>)
         [0 ..< steps' + 1])"

record snapshot2 = snapshot +
  dd25Price :: real
  dd50Price :: real
  dd75Price :: real
  dd25Amount :: real
  dd50Amount :: real
  dd75Amount :: real

definition analysis2 :: "params \<Rightarrow> snapshot2 analysis_result" where
  "analysis2 p =
     (if length (table2 p) = 0 then Null
      else
        (let triggeredLevels' = filter isTriggered (table2 p);
             numTriggered' = length triggeredLevels'
         in if numTriggered' = 0 then NoPosition 0 True
            else
              (let lastTriggered' = last triggeredLevels';
                   totalLots' = cumulativeLots lastTriggered';
                   totalOunces' = totalOunces lastTriggered';
                   currentNotionalUSD' = toFixed 2 (mul64 (currentPrice p) totalOunces');
                   notionalUSC' = toFixed 2 (mul64 currentNotionalUSD' 100);
                   usedMargin' =
                     toFixed 2 (mul64 (div64 currentNotionalUSD' (leverage p)) 100);
                   marginPercent' =
                     toFixed 2 (mul64 (div64 usedMargin' (or_else (balanceUSC p) 1)) 100);
                   profitPerLotUSC' = toFixed 2 (mul64 (mul64 (tp p) (contractSize p)) 100);
                   totalPotentialProfit' = toFixed 2 (mul64 totalLots' profitPerLotUSC');
                   avgEntry' =
                     div64
                       (foldl (\<lambda>s r. add64 s (mul64 (levelPrice r) (lotsAtThisLevel r))) 0
                          triggeredLevels')
                       totalLots';
                   avgEntryFixed' = toFixed 2 avgEntry';
                   currentFloatingPL' =
                     toFixed 2
                       (mul64 (mul64 (sub64 (currentPrice p) avgEntry') totalOunces') 100);
                   breakEvenPrice' = avgEntryFixed';
                   profitTargetPrice' = toFixed 2 (add64 avgEntryFixed' (tp p));
                   marginCallPrice' = marginCallPrice2 p;
                   maxSafeDrop' = toFixed 2 (sub64 (currentPrice p) marginCallPrice');
                   currentEquity' = toFixed 2 (add64 (balanceUSC p) currentFloatingPL');
                   risk =
                     (if marginPercent' > 70 then (EXTREME, red)
                      else if marginPercent' > 50 then (HIGH, orange)
                      else if marginPercent' > 30 then (MODERATE, yellow)
                      else (LOW, green))
               in Position
                    \<lparr> sn_numTriggered = numTriggered',
                      sn_totalLots = totalLots',
                      sn_totalOunces = totalOunces',
                      sn_usedMargin = usedMargin',
                      sn_notionalUSC = notionalUSC',
                      sn_marginPercent = marginPercent',
                      sn_totalPotentialProfit = totalPotentialProfit',
                      sn_avgEntryFixed = avgEntryFixed',
                      sn_currentFloatingPL = currentFloatingPL',
                      sn_breakEvenPrice = breakEvenPrice',
                      sn_profitTargetPrice = profitTargetPrice',
                      sn_drop10 = simulateDrop2 p 10,
                      sn_drop25 = simulateDrop2 p 25,
                      sn_drop50 = simulateDrop2 p 50,
                      sn_drop100 = simulateDrop2 p 100,
                      sn_marginCallPrice = marginCallPrice',
                      sn_maxSafeDrop = maxSafeDrop',
                      sn_riskLevel = fst risk,
                      sn_riskColor = snd risk,
                      sn_lowestTriggered = levelPrice lastTriggered',
                      sn_currentEquity = currentEquity',
                      sn_noPositions = False,
                      sn_equityCurveData = equityCurveData2 p marginCallPrice',
                      dd25Price = findPriceForEquity2 p (mul64 (balanceUSC p) 0.75),
                      dd50Price = findPriceForEquity2 p (mul64 (balanceUSC p) 0.50),
                      dd75Price = findPriceForEquity2 p (mul64 (balanceUSC p) 0.25),
                      dd25Amount = toFixed 2 (mul64 (balanceUSC p) 0.25),
                      dd50Amount = toFixed 2 (mul64 (balanceUSC p) 0.50),
                      dd75Amount = toFixed 2 (mul64 (balanceUSC p) 0.75) \<rparr>)))"

section \<open>Parameter sets used as examples\<close>

text \<open>
  The defaults of the input fields; the lot size is the binary64 number that the field's
  text \<^verbatim>\<open>0.1\<close> denotes.
\<close>

definition defaults :: params where
  "defaults = \<lparr> gridStartPrice = 2650, currentPrice = 2600, step = 5,
     lotSize = round64 0.1, levels = 20, tp = 5, balanceUSC = 10000, leverage = 2000,
     contractSize = 1 \<rparr>"

text \<open>One level at 70 and a balance of 100: the margin is exactly 70 percent of it.\<close>

definition atSeventy :: params where
  "atSeventy = \<lparr> gridStartPrice = 70, currentPrice = 70, step = 5, lotSize = 1,
     levels = 1, tp = 5, balanceUSC = 100, leverage = 100, contractSize = 1 \<rparr>"


text \<open>A start price that rounds up to 100.00, and a current price between the two.\<close>

definition roundedUp :: params where
  "roundedUp = \<lparr> gridStartPrice = round64 99.996, currentPrice = round64 99.999, step = 5,
     lotSize = round64 0.1, levels = 1, tp = 5, balanceUSC = 10000, leverage = 2000,
     contractSize = 1 \<rparr>"

text \<open>A negative step: the ladder climbs.\<close>

definition ascending :: params where
  "ascending = \<lparr> gridStartPrice = 100, currentPrice = 101, step = - 5,
     lotSize = round64 0.1, levels = 2, tp = 5, balanceUSC = 10000, leverage = 2000,
     contractSize = 1 \<rparr>"




section \<open>Properties of the binary64 rounding\<close>




lemma rne_of_int: "rne (of_int n) = n"
  by (simp add: rne_def)

lemma rne_le_int: "t \<le> of_int n \<Longrightarrow> rne t \<le> n"
  unfolding rne_def Let_def by (auto; linarith)

lemma int_le_rne: "of_int n \<le> t \<Longrightarrow> n \<le> rne t"
  unfolding rne_def Let_def by (auto; linarith)

lemma rne_mono: "s \<le> t \<Longrightarrow> rne s \<le> rne t"
proof -
  assume st: "s \<le> t"
  show ?thesis
  proof (cases "\<lfloor>s\<rfloor> = \<lfloor>t\<rfloor>")
    case True
    then show ?thesis using st unfolding rne_def Let_def by (auto; linarith)
  next
    case False
    then have "\<lfloor>s\<rfloor> + 1 \<le> \<lfloor>t\<rfloor>" using st floor_mono [of s t] by linarith
    moreover have "rne s \<le> \<lfloor>s\<rfloor> + 1" unfolding rne_def Let_def by auto
    moreover have "\<lfloor>t\<rfloor> \<le> rne t" unfolding rne_def Let_def by auto
    ultimately show ?thesis by linarith
  qed
qed

lemma rne_minus: "rne (- t) = - rne t"
proof (cases "t = of_int \<lfloor>t\<rfloor>")
  case True
  then obtain n where "t = of_int n" by blast
  then show ?thesis by (simp add: rne_of_int flip: of_int_minus)
next
  case False
  then have f: "\<lfloor>- t\<rfloor> = - \<lfloor>t\<rfloor> - 1"
    by (metis ceiling_def ceiling_altdef of_int_floor_cancel add.commute diff_minus_eq_add minus_diff_eq neg_equal_iff_equal uminus_add_conv_diff)
  have r: "0 < t - of_int \<lfloor>t\<rfloor>" "t - of_int \<lfloor>t\<rfloor> < 1" using False by linarith+
  show ?thesis
    unfolding rne_def Let_def f using r by (auto; presburger?)
qed

lemma two_powi_nat: "0 \<le> e \<Longrightarrow> (2::real) powi e = 2 ^ nat e"
  by (simp add: power_int_def)

lemma two_powi_neg: "(2::real) powi (- e) = 1 / 2 powi e"
  by (simp add: power_int_minus divide_inverse)

lemma expo_bounds:
  assumes "x \<noteq> 0"
  shows "2 powi (expo x) \<le> \<bar>x\<bar>" and "\<bar>x\<bar> < 2 powi (expo x + 1)"
proof -
  have both: "2 powi (expo x) \<le> \<bar>x\<bar> \<and> \<bar>x\<bar> < 2 powi (expo x + 1)"
  proof (cases "1 \<le> \<bar>x\<bar>")
    case True
    define n where "n = \<lfloor>\<bar>x\<bar>\<rfloor>"
    have n: "0 < n" using True by (simp add: n_def)
    have e: "expo x = bitlen n - 1" using True by (simp add: expo_def n_def)
    have b1: "1 \<le> bitlen n" using n by (simp add: bitlen_alt_def)
    from bitlen_bounds [OF n] have lo: "2 ^ nat (bitlen n - 1) \<le> n" and hi: "n < 2 ^ nat (bitlen n)"
      by simp_all
    from hi have "n + 1 \<le> 2 ^ nat (bitlen n)" by simp
    then have "real_of_int (n + 1) \<le> real_of_int (2 ^ nat (bitlen n))"
      by (simp only: of_int_le_iff)
    then have hi': "real_of_int n + 1 \<le> 2 ^ nat (bitlen n)" by simp
    from lo have "real_of_int (2 ^ nat (bitlen n - 1)) \<le> real_of_int n"
      by (simp only: of_int_le_iff)
    then have lo': "2 ^ nat (bitlen n - 1) \<le> real_of_int n" by simp
    have "real_of_int n \<le> \<bar>x\<bar>" "\<bar>x\<bar> < real_of_int n + 1"
      unfolding n_def by linarith+
    moreover have "(2::real) powi (bitlen n - 1) = 2 ^ nat (bitlen n - 1)"
      "(2::real) powi (bitlen n - 1 + 1) = 2 ^ nat (bitlen n)"
      using b1 by (simp_all add: two_powi_nat)
    ultimately show ?thesis
      unfolding e using lo' hi' by linarith
  next
    case False
    define c where "c = \<lceil>1 / \<bar>x\<bar>\<rceil>"
    define n where "n = c - 1"
    have xpos: "0 < \<bar>x\<bar>" using assms by simp
    have "1 < 1 / \<bar>x\<bar>" using False xpos by (simp add: field_simps)
    then have "1 < c" unfolding c_def by linarith
    then have n: "0 < n" by (simp add: n_def)
    have e: "expo x = - bitlen n" using False by (simp add: expo_def n_def c_def)
    have b1: "1 \<le> bitlen n" using n by (simp add: bitlen_alt_def)
    from bitlen_bounds [OF n] have lo: "2 ^ nat (bitlen n - 1) \<le> n" and hi: "n < 2 ^ nat (bitlen n)"
      by simp_all
    from hi have "c \<le> 2 ^ nat (bitlen n)" by (simp add: n_def)
    then have "real_of_int c \<le> real_of_int (2 ^ nat (bitlen n))"
      by (simp only: of_int_le_iff)
    then have hi': "real_of_int c \<le> 2 ^ nat (bitlen n)" by simp
    from lo have "real_of_int (2 ^ nat (bitlen n - 1)) \<le> real_of_int n"
      by (simp only: of_int_le_iff)
    then have lo': "2 ^ nat (bitlen n - 1) \<le> real_of_int n" by simp
    have "1 / \<bar>x\<bar> \<le> real_of_int c" "real_of_int n < 1 / \<bar>x\<bar>"
      unfolding n_def c_def by linarith+
    then have a: "1 / \<bar>x\<bar> \<le> 2 ^ nat (bitlen n)" and b: "2 ^ nat (bitlen n - 1) < 1 / \<bar>x\<bar>"
      using hi' lo' by linarith+
    from a xpos have "1 \<le> 2 ^ nat (bitlen n) * \<bar>x\<bar>"
      by (simp add: field_simps)
    then have A: "1 / 2 ^ nat (bitlen n) \<le> \<bar>x\<bar>"
      by (simp add: field_simps)
    from b xpos have "2 ^ nat (bitlen n - 1) * \<bar>x\<bar> < 1"
      by (simp add: field_simps)
    then have B: "\<bar>x\<bar> < 1 / 2 ^ nat (bitlen n - 1)"
      by (simp add: field_simps)
    have p1: "(2::real) powi (- bitlen n) = 1 / 2 ^ nat (bitlen n)"
      using b1 by (simp add: two_powi_neg two_powi_nat)
    have "- bitlen n + 1 = - (bitlen n - 1)" by simp
    then have p2: "(2::real) powi (- bitlen n + 1) = 1 / 2 ^ nat (bitlen n - 1)"
      using b1 by (simp only: two_powi_neg) (simp add: two_powi_nat)
    show ?thesis using A B by (simp only: e p1 p2)
  qed
  from both show "2 powi (expo x) \<le> \<bar>x\<bar>" and "\<bar>x\<bar> < 2 powi (expo x + 1)" by simp_all
qed

lemma expo_unique:
  assumes "2 powi e \<le> \<bar>x\<bar>" and "\<bar>x\<bar> < 2 powi (e + 1)"
  shows "expo x = e"
proof -
  have "(0::real) < 2 powi e" by simp
  with assms(1) have "0 < \<bar>x\<bar>" by linarith
  then have "x \<noteq> 0" by simp
  note b = expo_bounds [OF this]
  have "\<not> expo x < e"
  proof
    assume "expo x < e"
    then have "expo x + 1 \<le> e" by simp
    then have "(2::real) powi (expo x + 1) \<le> 2 powi e"
      by (intro power_int_increasing) simp_all
    with b(2) assms(1) show False by linarith
  qed
  moreover have "\<not> e < expo x"
  proof
    assume "e < expo x"
    then have "e + 1 \<le> expo x" by simp
    then have "(2::real) powi (e + 1) \<le> 2 powi (expo x)"
      by (intro power_int_increasing) simp_all
    with b(1) assms(2) show False by linarith
  qed
  ultimately show ?thesis by linarith
qed

lemma expo_mono:
  assumes "x \<noteq> 0" and "\<bar>x\<bar> \<le> \<bar>y\<bar>"
  shows "expo x \<le> expo y"
proof (rule ccontr)
  assume "\<not> expo x \<le> expo y"
  then have "expo y + 1 \<le> expo x" by simp
  then have "(2::real) powi (expo y + 1) \<le> 2 powi (expo x)"
    by (intro power_int_increasing) simp_all
  moreover have "y \<noteq> 0" using assms by auto
  ultimately show False
    using expo_bounds(1) [OF assms(1)] expo_bounds(2) [OF \<open>y \<noteq> 0\<close>] assms(2) by linarith
qed

lemma expo_minus: "expo (- x) = expo x"
  by (simp add: expo_def)

lemma ulp64_pos: "0 < ulp64 x"
  by (simp add: ulp64_def)

lemma ulp64_minus: "ulp64 (- x) = ulp64 x"
  by (simp add: ulp64_def expo_minus)

lemma ulp64_mono: "x \<noteq> 0 \<Longrightarrow> \<bar>x\<bar> \<le> \<bar>y\<bar> \<Longrightarrow> ulp64 x \<le> ulp64 y"
  unfolding ulp64_def using expo_mono [of x y]
  by (intro power_int_increasing) simp_all

lemma round64_zero: "round64 0 = 0"
  by (simp add: round64_def)

lemma round64_minus: "round64 (- x) = - round64 x"
  by (simp add: round64_def ulp64_minus rne_minus)

lemma round64_nonneg: "0 \<le> x \<Longrightarrow> 0 \<le> round64 x"
proof -
  assume "0 \<le> x"
  then have "of_int 0 \<le> x / ulp64 x" using ulp64_pos [of x] by simp
  then have "0 \<le> rne (x / ulp64 x)" by (rule int_le_rne)
  then show ?thesis using ulp64_pos [of x] by (simp add: round64_def)
qed

lemma round64_nonpos: "x \<le> 0 \<Longrightarrow> round64 x \<le> 0"
  using round64_nonneg [of "- x"] by (simp add: round64_minus)




lemma two_powi_mult: "c = a + b \<Longrightarrow> (2::real) powi a * 2 powi b = 2 powi c"
  by (simp add: power_int_add)

lemma ulp64_normal: "- 1022 \<le> expo x \<Longrightarrow> ulp64 x = 2 powi (expo x - 52)"
  by (simp add: ulp64_def max_def)

lemma ulp64_subnormal: "expo x \<le> - 1022 \<Longrightarrow> ulp64 x = 2 powi (- 1074)"
  by (simp add: ulp64_def max_def)

lemma powi_le_abs_imp_le_expo:
  assumes "2 powi e \<le> \<bar>x\<bar>"
  shows "e \<le> expo x"
proof (rule ccontr)
  assume "\<not> e \<le> expo x"
  then have "expo x + 1 \<le> e" by simp
  then have "(2::real) powi (expo x + 1) \<le> 2 powi e"
    by (intro power_int_increasing) simp_all
  moreover have "(0::real) < 2 powi e" by simp
  with assms have "0 < \<bar>x\<bar>" by linarith
  then have "x \<noteq> 0" by simp
  ultimately show False using expo_bounds(2) [of x] assms by linarith
qed

lemma abs_less_powi_imp_expo_less:
  assumes "x \<noteq> 0" and "\<bar>x\<bar> < 2 powi e"
  shows "expo x < e"
proof (rule ccontr)
  assume "\<not> expo x < e"
  then have "(2::real) powi e \<le> 2 powi (expo x)"
    by (intro power_int_increasing) simp_all
  then show False using expo_bounds(1) [OF assms(1)] assms(2) by linarith
qed

text \<open>The scaled operand lies below \<open>2\<^sup>5\<^sup>3\<close>.\<close>

lemma scaled_less: "x \<noteq> 0 \<Longrightarrow> \<bar>x\<bar> / ulp64 x < 2 ^ 53"
proof -
  assume x: "x \<noteq> 0"
  have "\<bar>x\<bar> < 2 powi (expo x + 1)" using x by (rule expo_bounds)
  also have "(2::real) powi (expo x + 1) \<le> 2 powi (max (expo x) (- 1022) + 1)"
    by (intro power_int_increasing) simp_all
  also have "\<dots> = 2 powi (max (expo x) (- 1022) - 52 + 53)"
    by (rule arg_cong [where f = "\<lambda>e. 2 powi e"]) simp
  also have "\<dots> = ulp64 x * 2 powi 53"
    unfolding ulp64_def by (subst power_int_add) simp_all
  finally have "\<bar>x\<bar> < ulp64 x * 2 ^ 53" by simp
  then show ?thesis using ulp64_pos [of x] by (simp add: field_simps)
qed

lemma scaled_ge: "- 1022 \<le> expo x \<Longrightarrow> x \<noteq> 0 \<Longrightarrow> 2 ^ 52 \<le> \<bar>x\<bar> / ulp64 x"
proof -
  assume n: "- 1022 \<le> expo x" and x: "x \<noteq> 0"
  have "(2::real) powi (expo x) = 2 powi (expo x - 52 + 52)" by simp
  also have "\<dots> = ulp64 x * 2 powi 52"
    unfolding ulp64_normal [OF n] by (subst power_int_add) simp_all
  finally have "ulp64 x * 2 ^ 52 \<le> \<bar>x\<bar>"
    using expo_bounds(1) [OF x] by simp
  then show ?thesis using ulp64_pos [of x] by (simp add: field_simps)
qed

lemma round64_mono_pos:
  assumes "0 < x" and "x \<le> y"
  shows "round64 x \<le> round64 y"
proof -
  have y: "0 < y" using assms by simp
  have u: "ulp64 x \<le> ulp64 y" using assms by (intro ulp64_mono) simp_all
  have rx: "round64 x = of_int (rne (x / ulp64 x)) * ulp64 x"
    and ry: "round64 y = of_int (rne (y / ulp64 y)) * ulp64 y"
    using assms y by (simp_all add: round64_def)
  show ?thesis
  proof (cases "ulp64 x = ulp64 y")
    case True
    have "x / ulp64 y \<le> y / ulp64 y"
      using assms ulp64_pos [of y] by (simp add: divide_right_mono)
    then have "rne (x / ulp64 y) \<le> rne (y / ulp64 y)" by (rule rne_mono)
    then have "real_of_int (rne (x / ulp64 y)) \<le> real_of_int (rne (y / ulp64 y))" by simp
    then show ?thesis
      unfolding rx ry True using ulp64_pos [of y] by (simp add: mult_right_mono)
  next
    case False
    with u have lt: "ulp64 x < ulp64 y" by simp
    let ?a = "max (expo x) (- 1022)" and ?b = "max (expo y) (- 1022)"
    have "?a < ?b"
    proof (rule ccontr)
      assume "\<not> ?a < ?b"
      then have "?b - 52 \<le> ?a - 52" by linarith
      then have "(2::real) powi (?b - 52) \<le> 2 powi (?a - 52)"
        by (rule power_int_increasing) simp
      with lt show False by (simp add: ulp64_def)
    qed
    then have ny: "- 1022 \<le> expo y" and ab: "?a + 1 \<le> expo y" by linarith+
    have "x / ulp64 x < 2 ^ 53" using scaled_less [of x] assms by simp
    then have "x / ulp64 x \<le> of_int (2 ^ 53)" by simp
    then have "rne (x / ulp64 x) \<le> 2 ^ 53" by (rule rne_le_int)
    then have "real_of_int (rne (x / ulp64 x)) \<le> real_of_int (2 ^ 53)"
      by (simp only: of_int_le_iff)
    then have "real_of_int (rne (x / ulp64 x)) * ulp64 x \<le> 2 ^ 53 * ulp64 x"
      using ulp64_pos [of x] by (intro mult_right_mono) simp_all
    also have "2 ^ 53 * ulp64 x = 2 powi 53 * 2 powi (?a - 52)"
      by (simp add: ulp64_def)
    also have "\<dots> = 2 powi (?a + 1)"
      by (rule two_powi_mult) simp
    also have "\<dots> \<le> 2 powi (expo y)"
      using ab by (intro power_int_increasing) simp_all
    finally have left: "round64 x \<le> 2 powi (expo y)" by (simp add: rx)
    have "2 ^ 52 \<le> y / ulp64 y" using scaled_ge [OF ny] y by simp
    then have "of_int (2 ^ 52) \<le> y / ulp64 y" by simp
    then have "2 ^ 52 \<le> rne (y / ulp64 y)" by (rule int_le_rne)
    then have "real_of_int (2 ^ 52) \<le> real_of_int (rne (y / ulp64 y))"
      by (simp only: of_int_le_iff)
    then have "2 ^ 52 * ulp64 y \<le> real_of_int (rne (y / ulp64 y)) * ulp64 y"
      using ulp64_pos [of y] by (intro mult_right_mono) simp_all
    moreover have "2 ^ 52 * ulp64 y = 2 powi 52 * 2 powi (expo y - 52)"
      by (simp add: ulp64_normal [OF ny])
    moreover have "\<dots> = 2 powi (expo y)"
      by (rule two_powi_mult) simp
    ultimately have right: "2 powi (expo y) \<le> round64 y" by (simp add: ry)
    from left right show ?thesis by linarith
  qed
qed

lemma round64_mono: "x \<le> y \<Longrightarrow> round64 x \<le> round64 y"
proof -
  assume xy: "x \<le> y"
  consider "0 < x" | "x \<le> 0" "0 \<le> y" | "y < 0" by linarith
  then show ?thesis
  proof cases
    case 1
    then show ?thesis using xy by (rule round64_mono_pos)
  next
    case 2
    then have "round64 x \<le> 0" "0 \<le> round64 y"
      by (simp_all add: round64_nonpos round64_nonneg)
    then show ?thesis by linarith
  next
    case 3
    then have "round64 (- y) \<le> round64 (- x)"
      using xy by (intro round64_mono_pos) simp_all
    then show ?thesis by (simp add: round64_minus)
  qed
qed






lemma round64_exact_strict:
  assumes "\<bar>N\<bar> < 2 ^ 53" and "- 1074 \<le> k"
  shows "round64 (of_int N * 2 powi k) = of_int N * 2 powi k"
proof (cases "N = 0")
  case True
  then show ?thesis by (simp add: round64_zero)
next
  case False
  let ?x = "real_of_int N * 2 powi k"
  let ?c = "max (expo ?x) (- 1022) - 52"
  have x0: "?x \<noteq> 0" using False by simp
  have "\<bar>?x\<bar> = \<bar>real_of_int N\<bar> * 2 powi k"
    by (simp add: abs_mult)
  also have "\<dots> < 2 ^ 53 * 2 powi k"
  proof (rule mult_strict_right_mono)
    have "real_of_int \<bar>N\<bar> < real_of_int (2 ^ 53)"
      using assms(1) by (simp only: of_int_less_iff)
    then show "\<bar>real_of_int N\<bar> < 2 ^ 53" by simp
  qed simp
  also have "\<dots> = 2 powi 53 * 2 powi k" by simp
  also have "\<dots> = 2 powi (k + 53)" by (rule two_powi_mult) simp
  finally have "expo ?x < k + 53" using x0 by (intro abs_less_powi_imp_expo_less)
  then have j: "0 \<le> k - ?c" using assms(2) by linarith
  have u: "ulp64 ?x = 2 powi ?c" by (simp add: ulp64_def)
  have split: "(2::real) powi ?c * 2 powi (k - ?c) = 2 powi k"
    by (rule two_powi_mult) simp
  then have "?x / ulp64 ?x = real_of_int N * 2 powi (k - ?c)"
    unfolding u by (simp add: field_simps)
  also have "\<dots> = real_of_int (N * 2 ^ nat (k - ?c))"
    using j by (simp add: two_powi_nat)
  finally have "rne (?x / ulp64 ?x) = N * 2 ^ nat (k - ?c)"
    by (simp only: rne_of_int)
  then have "round64 ?x = real_of_int (N * 2 ^ nat (k - ?c)) * 2 powi ?c"
    using x0 by (simp only: round64_def u if_False)
  also have "\<dots> = real_of_int N * (2 powi ?c * 2 powi (k - ?c))"
    using j by (simp add: two_powi_nat)
  finally show ?thesis by (simp only: split)
qed

lemma round64_exact:
  assumes "\<bar>N\<bar> \<le> 2 ^ 53" and "- 1074 \<le> k"
  shows "round64 (of_int N * 2 powi k) = of_int N * 2 powi k"
proof (cases "\<bar>N\<bar> < 2 ^ 53")
  case True
  then show ?thesis using assms(2) by (rule round64_exact_strict)
next
  case False
  with assms(1) have "\<bar>N\<bar> = 2 ^ 53" by simp
  then have "N = 2 ^ 53 \<or> N = - (2 ^ 53)" by linarith
  then have N: "N = 2 * (N div 2)" and M: "\<bar>N div 2\<bar> < 2 ^ 53"
    by auto
  have "(2::real) powi 1 * 2 powi k = 2 powi (k + 1)" by (rule two_powi_mult) simp
  then have "real_of_int N * 2 powi k = real_of_int (N div 2) * 2 powi (k + 1)"
    by (subst N) simp
  moreover have "round64 (real_of_int (N div 2) * 2 powi (k + 1))
      = real_of_int (N div 2) * 2 powi (k + 1)"
    using M assms(2) by (intro round64_exact_strict) simp_all
  ultimately show ?thesis by simp
qed

lemma round64_repr:
  "\<exists>N k. round64 x = of_int N * 2 powi k \<and> \<bar>N\<bar> \<le> 2 ^ 53 \<and> - 1074 \<le> k"
proof (cases "x = 0")
  case True
  have "round64 x = of_int 0 * 2 powi 0 \<and> \<bar>0::int\<bar> \<le> 2 ^ 53 \<and> - 1074 \<le> (0::int)"
    using True by (simp add: round64_zero)
  then show ?thesis by blast
next
  case False
  let ?N = "rne (x / ulp64 x)"
  have s: "\<bar>x\<bar> / ulp64 x < 2 ^ 53" using False by (rule scaled_less)
  have a: "\<bar>x / ulp64 x\<bar> = \<bar>x\<bar> / ulp64 x" using ulp64_pos [of x] by (simp add: abs_divide)
  have "x / ulp64 x \<le> of_int (2 ^ 53)"
    using s a by (simp add: abs_if split: if_splits)
  then have hi: "?N \<le> 2 ^ 53" by (rule rne_le_int)
  have "of_int (- (2 ^ 53)) \<le> x / ulp64 x"
    using s a by (simp add: abs_if split: if_splits)
  then have lo: "- (2 ^ 53) \<le> ?N" by (rule int_le_rne)
  from hi lo have "\<bar>?N\<bar> \<le> 2 ^ 53" by simp
  moreover have "round64 x = of_int ?N * 2 powi (max (expo x) (- 1022) - 52)"
    using False by (simp add: round64_def ulp64_def)
  moreover have "- 1074 \<le> max (expo x) (- 1022) - 52" by simp
  ultimately show ?thesis by blast
qed

lemma round64_idem: "round64 (round64 x) = round64 x"
proof -
  obtain N k where "round64 x = of_int N * 2 powi k" "\<bar>N\<bar> \<le> 2 ^ 53" "- 1074 \<le> k"
    using round64_repr by blast
  then show ?thesis by (simp add: round64_exact)
qed


lemma round64_of_int: "\<bar>n\<bar> \<le> 2 ^ 53 \<Longrightarrow> round64 (of_int n) = of_int n"
  using round64_exact [of n 0] by simp

text \<open>From \<open>2\<^sup>5\<^sup>3\<close> on every double is an integer.\<close>

lemma large_double_is_int:
  assumes "round64 x = x" and "2 ^ 53 \<le> \<bar>x\<bar>"
  shows "\<exists>z. x = of_int z"
proof -
  obtain N k where r: "round64 x = of_int N * 2 powi k" and n: "\<bar>N\<bar> \<le> 2 ^ 53"
    and k: "- 1074 \<le> k"
    using round64_repr by blast
  have "0 \<le> k"
  proof (rule ccontr)
    assume "\<not> 0 \<le> k"
    then have "(2::real) powi k < 2 powi 0"
      by (intro power_int_strict_increasing) simp_all
    then have p: "(2::real) powi k < 1" by simp
    have "real_of_int \<bar>N\<bar> \<le> real_of_int (2 ^ 53)" using n by (simp only: of_int_le_iff)
    then have N: "\<bar>real_of_int N\<bar> \<le> 2 ^ 53" by simp
    have "N \<noteq> 0" using r assms by auto
    then have "0 < \<bar>real_of_int N\<bar>" by simp
    then have "\<bar>real_of_int N\<bar> * 2 powi k < \<bar>real_of_int N\<bar> * 1"
      using p by (intro mult_strict_left_mono)
    then have "\<bar>x\<bar> < 2 ^ 53"
      using N r assms(1) by (simp add: abs_mult)
    with assms(2) show False by simp
  qed
  then have "x = of_int (N * 2 ^ nat k)"
    using r assms(1) by (simp add: two_powi_nat)
  then show ?thesis by blast
qed

section \<open>Rounding to decimals\<close>

lemma decimal_nonneg_eq:
  "0 \<le> x \<Longrightarrow> x < 10 ^ 21 \<Longrightarrow> decimal d x = of_int \<lfloor>x * 10 ^ d + 1 / 2\<rfloor> / 10 ^ d"
  by (cases "x = 0") (simp_all add: decimal_def)

lemma decimal_minus: "decimal d (- x) = - decimal d x"
  by (simp add: decimal_def sgn_minus)

lemma decimal_zero: "decimal d 0 = 0"
  by (simp add: decimal_def)

lemma decimal_nonneg: "0 \<le> x \<Longrightarrow> 0 \<le> decimal d x"
  by (simp add: decimal_def sgn_if)

lemma decimal_nonpos: "x \<le> 0 \<Longrightarrow> decimal d x \<le> 0"
  using decimal_nonneg [of "- x" d] by (simp add: decimal_minus)

lemma decimal_mono_nonneg:
  assumes "0 \<le> x" "x \<le> y"
  shows "decimal d x \<le> decimal d y"
proof (cases "y < 10 ^ 21")
  case True
  with assms have "x < 10 ^ 21" by simp
  have "\<lfloor>x * 10 ^ d + 1 / 2\<rfloor> \<le> \<lfloor>y * 10 ^ d + 1 / 2\<rfloor>"
    using assms by (intro floor_mono) (simp add: mult_right_mono)
  then show ?thesis
    using assms True \<open>x < 10 ^ 21\<close>
    by (simp add: decimal_nonneg_eq divide_right_mono)
next
  case False
  then have y: "decimal d y = y" using assms by (simp add: decimal_def)
  show ?thesis
  proof (cases "x < 10 ^ 21")
    case True
    define z :: int where "z = 10 ^ 21 * 10 ^ d"
    have A: "x * 10 ^ d < 10 ^ 21 * 10 ^ d"
      using True by (intro mult_strict_right_mono) simp_all
    have B: "real_of_int z = 10 ^ 21 * 10 ^ d"
      by (simp add: z_def)
    have "x * 10 ^ d + 1 / 2 < of_int z + 1"
      unfolding B using A by linarith
    then have "x * 10 ^ d + 1 / 2 < of_int (z + 1)"
      by (simp only: of_int_add of_int_1)
    then have "\<lfloor>x * 10 ^ d + 1 / 2\<rfloor> < z + 1"
      by (simp only: floor_less_iff)
    then have "\<lfloor>x * 10 ^ d + 1 / 2\<rfloor> \<le> z" by simp
    then have "real_of_int \<lfloor>x * 10 ^ d + 1 / 2\<rfloor> \<le> of_int z"
      by (simp only: of_int_le_iff)
    then have "real_of_int \<lfloor>x * 10 ^ d + 1 / 2\<rfloor> \<le> 10 ^ 21 * 10 ^ d"
      by (simp add: z_def)
    then have "real_of_int \<lfloor>x * 10 ^ d + 1 / 2\<rfloor> / 10 ^ d \<le> 10 ^ 21"
      by (simp add: pos_divide_le_eq)
    then show ?thesis using assms True False y by (simp add: decimal_nonneg_eq)
  next
    case False
    then show ?thesis using assms y by (simp add: decimal_def)
  qed
qed

lemma decimal_mono: "x \<le> y \<Longrightarrow> decimal d x \<le> decimal d y"
proof -
  assume xy: "x \<le> y"
  consider "0 \<le> x" | "x < 0" "0 \<le> y" | "y < 0" by linarith
  then show ?thesis
  proof cases
    case 1
    then show ?thesis using xy by (rule decimal_mono_nonneg)
  next
    case 2
    then have "decimal d x \<le> 0" "0 \<le> decimal d y"
      by (simp_all add: decimal_nonpos decimal_nonneg)
    then show ?thesis by simp
  next
    case 3
    then have "decimal d (- y) \<le> decimal d (- x)"
      using xy by (intro decimal_mono_nonneg) simp_all
    then show ?thesis by (simp add: decimal_minus)
  qed
qed



lemma decimal_grid_nonneg:
  assumes "0 \<le> k"
  shows "decimal d (of_int k / 10 ^ d) = of_int k / 10 ^ d"
proof (cases "real_of_int k / 10 ^ d < 10 ^ 21")
  case True
  have "\<lfloor>real_of_int k + 1 / 2\<rfloor> = k" by linarith
  then show ?thesis using assms True by (simp add: decimal_nonneg_eq)
next
  case False
  then show ?thesis using assms by (simp add: decimal_def)
qed

lemma decimal_grid: "decimal d (of_int k / 10 ^ d) = of_int k / 10 ^ d"
proof (cases "0 \<le> k")
  case True
  then show ?thesis by (rule decimal_grid_nonneg)
next
  case False
  then have "decimal d (of_int (- k) / 10 ^ d) = of_int (- k) / 10 ^ d"
    by (intro decimal_grid_nonneg) simp
  then show ?thesis by (simp add: decimal_minus)
qed


lemma toFixed_mono: "x \<le> y \<Longrightarrow> toFixed d x \<le> toFixed d y"
  unfolding toFixed_def by (intro round64_mono decimal_mono)


lemma toFixed_minus: "toFixed d (- x) = - toFixed d x"
  by (simp add: toFixed_def decimal_minus round64_minus)


lemma toFixed_nonpos: "x \<le> 0 \<Longrightarrow> toFixed d x \<le> 0"
  unfolding toFixed_def by (intro round64_nonpos decimal_nonpos)

lemma toFixed_is_double: "round64 (toFixed d x) = toFixed d x"
  by (simp add: toFixed_def round64_idem)

lemma decimal_of_int:
  "decimal d (of_int z) = of_int z"
  using decimal_grid [of d "z * 10 ^ d"] by simp

lemma toFixed_of_int: "\<bar>z\<bar> \<le> 2 ^ 53 \<Longrightarrow> toFixed d (of_int z) = of_int z"
  by (simp add: toFixed_def decimal_of_int round64_of_int)

section \<open>Exact operations\<close>

lemma round64_numeral:
  "numeral n \<le> (2::int) ^ 53 \<Longrightarrow> round64 (numeral n) = numeral n"
  using round64_of_int [of "numeral n"] by simp

lemma round64_neg_numeral:
  "numeral n \<le> (2::int) ^ 53 \<Longrightarrow> round64 (- numeral n) = - numeral n"
  by (simp add: round64_minus round64_numeral)

lemma round64_one: "round64 1 = 1"
  using round64_of_int [of 1] by simp

lemma decimal_numeral: "decimal d (numeral n) = numeral n"
  using decimal_of_int [of d "numeral n"] by simp

lemma decimal_neg_numeral: "decimal d (- numeral n) = - numeral n"
  by (simp add: decimal_minus decimal_numeral)

lemma decimal_one: "decimal d 1 = 1"
  using decimal_of_int [of d 1] by simp

lemmas exact64 =
  add64_def sub64_def mul64_def div64_def toFixed_def
  round64_zero round64_one round64_numeral round64_neg_numeral
  decimal_zero decimal_one decimal_numeral decimal_neg_numeral

section \<open>The ladder and the triggered levels\<close>

lemma levelPrice_mkLevel:
  "levelPrice (mkLevel p i) = toFixed 2 (sub64 (gridStartPrice p) (mul64 (of_nat i) (step p)))"
  by (simp add: mkLevel_def Let_def precision_def)

lemma isTriggered_mkLevel:
  "isTriggered (mkLevel p i) = (currentPrice p \<le> levelPrice (mkLevel p i))"
  by (simp add: mkLevel_def Let_def)

lemma length_table: "length (table p) = nat (levels p)"
  by (simp add: table_def)

lemma nth_table: "i < nat (levels p) \<Longrightarrow> table p ! i = mkLevel p i"
  by (simp add: table_def)

lemma isTriggered_table:
  "r \<in> set (table p) \<Longrightarrow> isTriggered r = (currentPrice p \<le> levelPrice r)"
  by (auto simp: table_def isTriggered_mkLevel)

lemma triggeredLevels_by_price:
  "triggeredLevels p = filter (\<lambda>r. currentPrice p \<le> levelPrice r) (table p)"
  unfolding triggeredLevels_def by (rule filter_cong) (simp_all add: isTriggered_table)

lemma numTriggered_count:
  "numTriggered p =
     length (filter
       (\<lambda>i. currentPrice p \<le> toFixed 2 (sub64 (gridStartPrice p) (mul64 (of_nat i) (step p))))
       [0 ..< nat (levels p)])"
  by (simp add: numTriggered_def triggeredLevels_by_price table_def filter_map o_def
      levelPrice_mkLevel)

lemma length_filter_mono:
  "(\<And>x. x \<in> set xs \<Longrightarrow> P x \<Longrightarrow> Q x) \<Longrightarrow> length (filter P xs) \<le> length (filter Q xs)"
  by (induction xs) auto

lemma upt_20: "[0 ..< 20] = [0,1,2,3,4,5,6,7,8,9,10,11,12,13,14,15,16,17,18,19]"
  by (simp add: upt_rec)

lemma table_currentPrice:
  "map (\<lambda>r. r\<lparr>isTriggered := False\<rparr>) (table (p\<lparr>currentPrice := c\<rparr>))
     = map (\<lambda>r. r\<lparr>isTriggered := False\<rparr>) (table p)"
  by (simp add: table_def mkLevel_def Let_def)

text \<open>
  Claim C7. For a fixed ladder, lowering the reference price never lowers the number of
  triggered levels: for reference prices \<open>p2 \<le> p1\<close> the count at \<open>p2\<close> is at least
  the count at \<open>p1\<close>. The reference price enters the ladder only through the
  \<^verbatim>\<open>isTriggered\<close> flags: with the flags cleared the ladders at the two prices are the
  same.
\<close>

theorem numTriggered_monotone:
  "p2 \<le> p1 \<Longrightarrow>
     numTriggered (p\<lparr>currentPrice := p1\<rparr>) \<le> numTriggered (p\<lparr>currentPrice := p2\<rparr>) \<and>
     map (\<lambda>r. r\<lparr>isTriggered := False\<rparr>) (table (p\<lparr>currentPrice := p1\<rparr>))
       = map (\<lambda>r. r\<lparr>isTriggered := False\<rparr>) (table (p\<lparr>currentPrice := p2\<rparr>))"
  unfolding numTriggered_count table_currentPrice
  by simp (rule length_filter_mono, simp)

theorem numTriggered_monotone_witness:
  "(2590::real) \<le> 2600 \<and> numTriggered (defaults\<lparr>currentPrice := 2600\<rparr>) = 11
     \<and> numTriggered (defaults\<lparr>currentPrice := 2590\<rparr>) = 13"
  using numTriggered_monotone [of 2590 2600 defaults]
  by (simp add: numTriggered_count defaults_def upt_20 exact64)

lemma table_one: "levels p = 1 \<Longrightarrow> table p = [mkLevel p 0]"
  by (simp add: table_def)

lemma table_two: "levels p = 2 \<Longrightarrow> table p = [mkLevel p 0, mkLevel p 1]"
  by (simp add: table_def upt_rec)

section \<open>The risk tier\<close>

text \<open>
  Claim C5. For every snapshot with a position the risk tier is EXTREME iff
  \<open>marginPercent > 70\<close>, HIGH iff \<open>50 < marginPercent \<le> 70\<close>, MODERATE iff
  \<open>30 < marginPercent \<le> 50\<close> and LOW otherwise; exactly 70 is HIGH.
\<close>

theorem risk_tier_thresholds:
  "analysis p = Position s \<Longrightarrow>
     (sn_riskLevel s = EXTREME \<longleftrightarrow> 70 < sn_marginPercent s) \<and>
     (sn_riskLevel s = HIGH \<longleftrightarrow> 50 < sn_marginPercent s \<and> sn_marginPercent s \<le> 70) \<and>
     (sn_riskLevel s = MODERATE \<longleftrightarrow> 30 < sn_marginPercent s \<and> sn_marginPercent s \<le> 50) \<and>
     (sn_riskLevel s = LOW \<longleftrightarrow> sn_marginPercent s \<le> 30) \<and>
     (sn_marginPercent s = 70 \<longrightarrow> sn_riskLevel s = HIGH)"
  by (auto simp: analysis_def snapshotOf_def riskLevel_def riskOf_def split: if_splits)

lemma table_atSeventy:
  "table atSeventy = [mkLevel atSeventy 0]"
  by (simp add: table_def atSeventy_def)

lemma triggered_atSeventy: "triggeredLevels atSeventy = [mkLevel atSeventy 0]"
  by (simp add: triggeredLevels_def table_atSeventy isTriggered_mkLevel levelPrice_mkLevel)
     (simp add: atSeventy_def exact64)

text \<open>Seventy hundredths, as a binary64 quotient, times 100 is 70 again.\<close>

lemma seventy_percent: "round64 (round64 (7 / 10) * 100) = 70"
  by code_simp

lemma marginPercent_atSeventy: "marginPercent atSeventy = 70"
  by (simp add: marginPercent_def usedMargin_def currentNotionalUSD_def an_totalOunces_def
      lastTriggered_def triggered_atSeventy mkLevel_def Let_def or_else_def)
     (simp add: atSeventy_def exact64 seventy_percent)

theorem risk_tier_thresholds_witness:
  "analysis atSeventy = Position (snapshotOf atSeventy) \<and>
   sn_marginPercent (snapshotOf atSeventy) = 70 \<and>
   sn_riskLevel (snapshotOf atSeventy) = HIGH"
proof -
  have a: "analysis atSeventy = Position (snapshotOf atSeventy)"
    by (simp add: analysis_def table_atSeventy numTriggered_def triggered_atSeventy)
  have m: "sn_marginPercent (snapshotOf atSeventy) = 70"
    by (simp add: snapshotOf_def marginPercent_atSeventy)
  from risk_tier_thresholds [OF a] m a show ?thesis by simp
qed

section \<open>The empty ladder\<close>

text \<open>
  Claim C6, as the code has it. For \<open>levels \<le> 0\<close> the ladder is empty and
  \<^verbatim>\<open>analysis\<close> returns \<^verbatim>\<open>null\<close> through its first guard; that is a value of
  its own, not the object \<^verbatim>\<open>{ numTriggered: 0, noPositions: true }\<close> returned
  when a non-empty ladder has no triggered level, and not an error.
\<close>

theorem empty_ladder_null:
  "levels p \<le> 0 \<Longrightarrow> table p = [] \<and> analysis p = Null"
  by (simp add: table_def analysis_def)

theorem empty_ladder_null_witness:
  "levels (defaults\<lparr>levels := 0\<rparr>) \<le> 0 \<and> table (defaults\<lparr>levels := 0\<rparr>) = []
     \<and> analysis (defaults\<lparr>levels := 0\<rparr>) = Null"
  using empty_ladder_null [of "defaults\<lparr>levels := 0\<rparr>"] by simp

text \<open>
  Claim C6 as stated fails: with \<open>levels = 0\<close> the result is not the no-position object.
\<close>

theorem empty_ladder_not_NoPosition:
  "levels (defaults\<lparr>levels := 0\<rparr>) \<le> 0 \<and>
   analysis (defaults\<lparr>levels := 0\<rparr>) \<noteq> NoPosition 0 True"
  by (simp add: analysis_def table_def)

section \<open>The order of the ladder\<close>

lemma lotsAtThisLevel_mkLevel: "lotsAtThisLevel (mkLevel p i) = toFixed 4 (lotSize p)"
  by (simp add: mkLevel_def Let_def)


lemma levelPrice_antimono:
  assumes "0 \<le> step p" "i \<le> j"
  shows "levelPrice (mkLevel p j) \<le> levelPrice (mkLevel p i)"
proof -
  have "real i * step p \<le> real j * step p"
    using assms by (intro mult_right_mono) simp_all
  then have "mul64 (of_nat i) (step p) \<le> mul64 (of_nat j) (step p)"
    unfolding mul64_def by (rule round64_mono)
  then have "sub64 (gridStartPrice p) (mul64 (of_nat j) (step p))
      \<le> sub64 (gridStartPrice p) (mul64 (of_nat i) (step p))"
    unfolding sub64_def by (intro round64_mono) simp
  then show ?thesis
    unfolding levelPrice_mkLevel by (rule toFixed_mono)
qed












section \<open>A current price above the ladder\<close>

lemma first_levelPrice:
  "levelPrice (mkLevel p 0) = toFixed 2 (round64 (gridStartPrice p))"
  by (simp add: levelPrice_mkLevel sub64_def mul64_def round64_zero)

text \<open>
  Claim C3, as the code has it. With at least one level and \<open>step \<ge> 0\<close>, a current price
  above the price of the first level, which is the start price as \<^verbatim>\<open>toFixed(2)\<close>
  rounds it, triggers no level, and \<^verbatim>\<open>analysis\<close> is the no-position object
  \<^verbatim>\<open>{ numTriggered: 0, noPositions: true }\<close>.
\<close>

theorem no_position_above_ladder:
  assumes "0 < levels p" and "0 \<le> step p"
    and "levelPrice (table p ! 0) < currentPrice p"
  shows "levelPrice (table p ! 0) = toFixed 2 (round64 (gridStartPrice p)) \<and>
         numTriggered p = 0 \<and> analysis p = NoPosition 0 True"
proof -
  have t: "table p ! 0 = mkLevel p 0"
    using assms(1) by (simp add: nth_table)
  have "\<not> currentPrice p \<le> levelPrice (mkLevel p i)" for i
    using levelPrice_antimono [OF assms(2), of 0 i] assms(3) by (simp add: t)
  then have "numTriggered p = 0"
    by (simp add: numTriggered_def triggeredLevels_by_price table_def filter_empty_conv)
  then show ?thesis using assms(1) by (simp add: analysis_def length_table t first_levelPrice)
qed

theorem no_position_above_ladder_witness:
  "0 < levels (defaults\<lparr>currentPrice := 2651\<rparr>) \<and> 0 \<le> step (defaults\<lparr>currentPrice := 2651\<rparr>) \<and>
   levelPrice (table (defaults\<lparr>currentPrice := 2651\<rparr>) ! 0) = 2650 \<and>
   levelPrice (table (defaults\<lparr>currentPrice := 2651\<rparr>) ! 0)
     < currentPrice (defaults\<lparr>currentPrice := 2651\<rparr>) \<and>
   numTriggered (defaults\<lparr>currentPrice := 2651\<rparr>) = 0 \<and>
   analysis (defaults\<lparr>currentPrice := 2651\<rparr>) = NoPosition 0 True"
proof -
  have l: "levelPrice (table (defaults\<lparr>currentPrice := 2651\<rparr>) ! 0) = 2650"
    by (simp add: nth_table first_levelPrice defaults_def exact64)
  have h: "0 < levels (defaults\<lparr>currentPrice := 2651\<rparr>)"
    "0 \<le> step (defaults\<lparr>currentPrice := 2651\<rparr>)"
    "levelPrice (table (defaults\<lparr>currentPrice := 2651\<rparr>) ! 0)
       < currentPrice (defaults\<lparr>currentPrice := 2651\<rparr>)"
    unfolding l by (simp_all add: defaults_def)
  from no_position_above_ladder [OF h] h l show ?thesis by simp
qed

text \<open>
  Claim C3 as stated fails twice. A start price of 99.996 gives a first level at 100.00,
  which the current price 99.999, above the start price, has reached. With a negative step
  the second level lies above the start price, and the current price 101 has reached the
  level at 105.
\<close>

theorem no_position_counterexample:
  "(0 < levels roundedUp \<and> gridStartPrice roundedUp < currentPrice roundedUp \<and>
    0 < step roundedUp \<and> levelPrice (table roundedUp ! 0) = 100 \<and>
    numTriggered roundedUp = 1 \<and>
    analysis roundedUp = Position (snapshotOf roundedUp)) \<and>
   (0 < levels ascending \<and> gridStartPrice ascending < currentPrice ascending \<and>
    numTriggered ascending = 1 \<and>
    analysis ascending = Position (snapshotOf ascending))"
proof -
  have l: "levelPrice (mkLevel roundedUp 0) = 100"
    unfolding levelPrice_mkLevel by code_simp
  have c: "currentPrice roundedUp \<le> 100" "gridStartPrice roundedUp < currentPrice roundedUp"
    unfolding roundedUp_def by code_simp+
  have t: "table roundedUp = [mkLevel roundedUp 0]"
    by (rule table_one) (simp add: roundedUp_def)
  have a: "numTriggered roundedUp = 1"
    by (simp add: numTriggered_def triggeredLevels_by_price t l c)
  have b: "numTriggered ascending = 1"
    by (simp add: numTriggered_count ascending_def upt_rec exact64)
  have "length (table roundedUp) = 1" "length (table ascending) = 2"
    by (simp_all add: length_table roundedUp_def ascending_def)
  then have "analysis roundedUp = Position (snapshotOf roundedUp)"
    "analysis ascending = Position (snapshotOf ascending)"
    by (simp_all add: analysis_def a b)
  moreover have "levelPrice (table roundedUp ! 0) = 100"
    by (simp add: t l)
  moreover have "0 < levels roundedUp" "0 < step roundedUp"
    "0 < levels ascending" "gridStartPrice ascending < currentPrice ascending"
    by (simp_all add: roundedUp_def ascending_def)
  ultimately show ?thesis using a b c by simp
qed

section \<open>The margin percentage\<close>

text \<open>
  Claim C4, as the code has it. \<^verbatim>\<open>marginPercent\<close> is \<^verbatim>\<open>usedMargin\<close> divided by
  \<^verbatim>\<open>balanceUSC || 1\<close>, times 100, rounded to two decimals: the divisor is the balance
  itself unless the balance is zero, when it is 1. It is never zero, and it is
  \<open>max(balance, 1)\<close> if and only if the balance is zero or at least 1.
\<close>

theorem marginPercent_denominator:
  "analysis p = Position s \<Longrightarrow>
     sn_marginPercent s
       = toFixed 2
           (mul64 (div64 (sn_usedMargin s) (if balanceUSC p = 0 then 1 else balanceUSC p)) 100) \<and>
     (if balanceUSC p = 0 then 1 else balanceUSC p) \<noteq> 0 \<and>
     ((if balanceUSC p = 0 then 1 else balanceUSC p) = max (balanceUSC p) 1
        \<longleftrightarrow> balanceUSC p = 0 \<or> 1 \<le> balanceUSC p)"
  by (auto simp: analysis_def snapshotOf_def marginPercent_def or_else_def max_def
      split: if_splits)

lemma atSeventy_balance:
  "table (atSeventy\<lparr>balanceUSC := b\<rparr>) = [mkLevel (atSeventy\<lparr>balanceUSC := b\<rparr>) 0]"
  "triggeredLevels (atSeventy\<lparr>balanceUSC := b\<rparr>) = [mkLevel (atSeventy\<lparr>balanceUSC := b\<rparr>) 0]"
  "usedMargin (atSeventy\<lparr>balanceUSC := b\<rparr>) = 70"
proof -
  let ?p = "atSeventy\<lparr>balanceUSC := b\<rparr>"
  show t: "table ?p = [mkLevel ?p 0]"
    by (rule table_one) (simp add: atSeventy_def)
  show tr: "triggeredLevels ?p = [mkLevel ?p 0]"
    by (simp add: triggeredLevels_def t isTriggered_mkLevel levelPrice_mkLevel)
       (simp add: atSeventy_def exact64)
  show "usedMargin ?p = 70"
    by (simp add: usedMargin_def currentNotionalUSD_def an_totalOunces_def
        lastTriggered_def tr mkLevel_def Let_def)
       (simp add: atSeventy_def exact64 seventy_percent)
qed

lemma atSeventy_analysis:
  "analysis (atSeventy\<lparr>balanceUSC := b\<rparr>) = Position (snapshotOf (atSeventy\<lparr>balanceUSC := b\<rparr>))"
  by (simp add: analysis_def numTriggered_def atSeventy_balance)

theorem marginPercent_denominator_witness:
  "analysis (atSeventy\<lparr>balanceUSC := 0\<rparr>) = Position (snapshotOf (atSeventy\<lparr>balanceUSC := 0\<rparr>)) \<and>
   balanceUSC (atSeventy\<lparr>balanceUSC := 0\<rparr>) = 0 \<and>
   sn_usedMargin (snapshotOf (atSeventy\<lparr>balanceUSC := 0\<rparr>)) = 70 \<and>
   sn_marginPercent (snapshotOf (atSeventy\<lparr>balanceUSC := 0\<rparr>)) = 7000"
proof -
  have u: "sn_usedMargin (snapshotOf (atSeventy\<lparr>balanceUSC := 0\<rparr>)) = 70"
    by (simp add: snapshotOf_def atSeventy_balance)
  from marginPercent_denominator [OF atSeventy_analysis [of 0]] u atSeventy_analysis [of 0]
  show ?thesis by (simp add: exact64)
qed

text \<open>
  Claim C4 as stated fails for a balance strictly between 0 and 1: with a used margin of 70
  and a balance of one half the code divides by one half and reports 14000, where a
  divisor floored at 1 gives 7000.
\<close>

theorem marginPercent_counterexample:
  "analysis (atSeventy\<lparr>balanceUSC := 1 / 2\<rparr>)
     = Position (snapshotOf (atSeventy\<lparr>balanceUSC := 1 / 2\<rparr>)) \<and>
   sn_marginPercent (snapshotOf (atSeventy\<lparr>balanceUSC := 1 / 2\<rparr>)) = 14000 \<and>
   toFixed 2 (mul64 (div64 (sn_usedMargin (snapshotOf (atSeventy\<lparr>balanceUSC := 1 / 2\<rparr>)))
     (max (balanceUSC (atSeventy\<lparr>balanceUSC := 1 / 2\<rparr>)) 1)) 100) = 7000"
  by (simp add: atSeventy_analysis snapshotOf_def marginPercent_def atSeventy_balance
      or_else_def exact64)

section \<open>The margin-call bisection\<close>





































section \<open>The two entry points\<close>

lemma table2_eq: "table2 p = table p"
  unfolding table2_def table_def mkLevel_def [abs_def] by (rule refl)

lemma simulateDrop2_eq: "simulateDrop2 p d = simulateDrop p d"
  unfolding simulateDrop2_def simulateDrop_def table2_eq entrySum_def by (rule refl)

lemma marginCallStep2_eq: "marginCallStep2 p = mcStep p"
  unfolding marginCallStep2_def [abs_def] mcStep_def [abs_def] table2_eq Let_def
    triggeredAtMid_def equityAtMid_def usedMarginAtMid_def avgEntryAtMid_def
    totalOuncesAtMid_def entrySum_def stopOutLevel_def
  by (rule refl)

lemma mcLoop_funpow: "mcLoop p n s = (mcStep p ^^ n) s"
  by (induction n arbitrary: s) (simp_all add: funpow_swap1)

lemma marginCallPrice2_eq: "marginCallPrice2 p = marginCallPrice p"
  unfolding marginCallPrice2_def marginCallPrice_def findMarginCallPrice_def mcSearch_def
    mcLoop_funpow marginCallStep2_eq
  by (rule refl)

lemma equityCurveData2_eq: "equityCurveData2 p (marginCallPrice p) = equityCurveData p"
  unfolding equityCurveData2_def equityCurveData_def curvePoint_def [abs_def]
    equityAtP_def Let_def table2_eq stepSize_def startP_def endP_def steps_def entrySum_def
  by (rule refl)

text \<open>
  Claim C10. On the same nine inputs the two entry points build the same ladder, and their
  analyses agree: both are \<^verbatim>\<open>null\<close>, or both the no-position object, or both a
  snapshot, and then every field of the first entry point's snapshot (the counts, lots,
  ounces, margins, prices, drops, margin-call price, safe drop, risk tier, equity and
  equity curve) has the same value in the second, which adds the six drawdown fields only.
\<close>

theorem entry_points_agree:
  "table2 p = table p \<and>
   map_analysis_result snapshot.truncate (analysis2 p) = analysis p"
proof -
  have "map_analysis_result snapshot.truncate (analysis2 p) = analysis p"
    unfolding analysis2_def analysis_def Let_def table2_eq numTriggered_def
        triggeredLevels_def snapshotOf_def
        totalLots_def an_totalOunces_def lastTriggered_def usedMargin_def
        currentNotionalUSD_def an_notionalUSC_def marginPercent_def profitPerLotUSC_def
        totalPotentialProfit_def avgEntry_def avgEntryFixed_def currentFloatingPL_def
        breakEvenPrice_def profitTargetPrice_def simulateDrop2_eq marginCallPrice2_eq
        maxSafeDrop_def currentEquity_def riskLevel_def riskColor_def riskOf_def
        equityCurveData2_eq entrySum_def triggeredLevels_def
    by (simp add: snapshot.truncate_def)
  then show ?thesis by (simp add: table2_eq)
qed


end
